theory Spec2Isabelle
  imports Main "HOL-Library.Word"
begin

section \<open>The JavaScript values the library handles\<close>

text \<open>
  \<open>src/index.ts\<close> is TypeScript, but its run-time checks (\<open>!title\<close>,
  \<open>typeof title !== 'string'\<close>, \<open>data != null\<close>) exist because a JavaScript caller can
  pass any value. Arguments are therefore values of \<open>jsval\<close>. A string is the list of
  its code units (\<open>char\<close> stands for one code unit). \<open>JNum\<close> carries the integers
  from \<open>-2^53\<close> to \<open>2^53 - 1\<close>, read from the word by \<open>sint\<close>: each of them is a
  Number, and \<open>Number::toString\<close> writes each in plain decimal (the exponent form
  starts at \<open>10^21\<close>). Other Numbers (fractions, larger values, \<open>NaN\<close>) are not modelled.
  \<open>JObj\<close> lists an object's own enumerable properties in enumeration order.
  \<open>JBigInt\<close> is kept because it is the plain value on which \<open>JSON.stringify\<close>
  throws.
\<close>

datatype js_error = Error string | TypeError string

datatype jsval =
    JUndefined
  | JNull
  | JBool bool
  | JNum "54 word"
  | JBigInt int
  | JStr string
  | JArr "jsval list"
  | JObj "(string \<times> jsval) list"

text \<open>ToBoolean: what \<open>!v\<close> negates.\<close>

fun truthy :: "jsval \<Rightarrow> bool" where
  "truthy JUndefined = False"
| "truthy JNull = False"
| "truthy (JBool b) = b"
| "truthy (JNum n) = (n \<noteq> 0)"
| "truthy (JBigInt n) = (n \<noteq> 0)"
| "truthy (JStr s) = (s \<noteq> [])"
| "truthy (JArr xs) = True"
| "truthy (JObj kvs) = True"

fun js_typeof :: "jsval \<Rightarrow> string" where
  "js_typeof JUndefined = ''undefined''"
| "js_typeof JNull = ''object''"
| "js_typeof (JBool b) = ''boolean''"
| "js_typeof (JNum n) = ''number''"
| "js_typeof (JBigInt n) = ''bigint''"
| "js_typeof (JStr s) = ''string''"
| "js_typeof (JArr xs) = ''object''"
| "js_typeof (JObj kvs) = ''object''"

text \<open>
  The fields \<open>driver\<close> and \<open>webhookUrl\<close> have type \<open>string | null\<close>; \<open>None\<close> is
  \<open>null\<close>. \<open>!this.driver\<close> holds for \<open>null\<close> and for the empty string.
\<close>

fun truthy_field :: "string option \<Rightarrow> bool" where
  "truthy_field None = False"
| "truthy_field (Some s) = (s \<noteq> [])"

text \<open>The string a value holds once \<open>typeof v === 'string'\<close> has been checked.\<close>

fun string_value :: "jsval \<Rightarrow> string" where
  "string_value (JStr s) = s"
| "string_value _ = []"

subsection \<open>Decimal rendering of integers\<close>

definition digit_char :: "nat \<Rightarrow> char" where
  "digit_char d = ''0123456789'' ! (d mod 10)"

function string_of_nat :: "nat \<Rightarrow> string" where
  "string_of_nat n = (if n < 10 then [digit_char n] else string_of_nat (n div 10) @ [digit_char (n mod 10)])"
  by pat_completeness auto
termination
  by (relation "measure id") auto

definition string_of_int :: "int \<Rightarrow> string" where
  "string_of_int i = (if i < 0 then CHR ''-'' # string_of_nat (nat (- i)) else string_of_nat (nat i))"

subsection \<open>\<open>String.prototype.toLowerCase\<close>\<close>

text \<open>
  Only the letters \<open>A\<close> to \<open>Z\<close> are mapped. The library compares the result with
  \<open>'discord'\<close> and stores it only when they are equal; no character outside \<open>A\<close> to \<open>Z\<close>
  lower-cases to one of the letters of that word, so the comparison is exact.
\<close>

definition lower_char :: "char \<Rightarrow> char" where
  "lower_char c =
     (case map_of (zip ''ABCDEFGHIJKLMNOPQRSTUVWXYZ'' ''abcdefghijklmnopqrstuvwxyz'') c of
        None \<Rightarrow> c
      | Some l \<Rightarrow> l)"

definition toLowerCase :: "string \<Rightarrow> string" where
  "toLowerCase s = map lower_char s"

subsection \<open>\<open>String.prototype.replace\<close> with a string pattern\<close>

fun starts_with :: "string \<Rightarrow> string \<Rightarrow> bool" where
  "starts_with [] s = True"
| "starts_with (p # ps) [] = False"
| "starts_with (p # ps) (c # cs) = (p = c \<and> starts_with ps cs)"

text \<open>\<open>indexOf s pat\<close>: the position of the first occurrence of \<open>pat\<close> in \<open>s\<close>.\<close>

fun indexOf :: "string \<Rightarrow> string \<Rightarrow> nat option" where
  "indexOf [] pat = (if pat = [] then Some 0 else None)"
| "indexOf (c # cs) pat =
     (if starts_with pat (c # cs) then Some 0 else map_option Suc (indexOf cs pat))"

text \<open>
  \<open>GetSubstitution\<close> (ECMA-262) expands the replacement text: \<open>$$\<close> gives \<open>$\<close>,
  \<open>$&\<close> the matched text, \<open>$`\<close> the text before the match and \<open>$'\<close> the text after
  it. A string pattern has no captures, so \<open>$1\<close> and \<open>$<\<close> stay as they are, which is
  what copying the \<open>$\<close> and going on does.
\<close>

fun GetSubstitution :: "string \<Rightarrow> string \<Rightarrow> string \<Rightarrow> string \<Rightarrow> string" where
  "GetSubstitution matched preceding following [] = []"
| "GetSubstitution matched preceding following [c] = [c]"
| "GetSubstitution matched preceding following (c # d # t) =
     (if c = CHR ''$'' \<and> d = CHR ''$'' then CHR ''$'' # GetSubstitution matched preceding following t
      else if c = CHR ''$'' \<and> d = CHR ''&'' then matched @ GetSubstitution matched preceding following t
      else if c = CHR ''$'' \<and> d = CHR 0x60 then preceding @ GetSubstitution matched preceding following t
      else if c = CHR ''$'' \<and> d = CHR 0x27 then following @ GetSubstitution matched preceding following t
      else c # GetSubstitution matched preceding following (d # t))"

definition replace :: "string \<Rightarrow> string \<Rightarrow> string \<Rightarrow> string" where
  "replace s pat replaceValue =
     (case indexOf s pat of
        None \<Rightarrow> s
      | Some pos \<Rightarrow>
          (let preceding = take pos s;
               following = drop (pos + length pat) s
           in preceding @ GetSubstitution pat preceding following replaceValue @ following))"

subsection \<open>\<open>Object.keys\<close> and \<open>JSON.stringify\<close>\<close>

fun Object_keys :: "jsval \<Rightarrow> js_error + string list" where
  "Object_keys JUndefined = Inl (TypeError ''Cannot convert undefined or null to object'')"
| "Object_keys JNull = Inl (TypeError ''Cannot convert undefined or null to object'')"
| "Object_keys (JBool b) = Inr []"
| "Object_keys (JNum n) = Inr []"
| "Object_keys (JBigInt n) = Inr []"
| "Object_keys (JStr s) = Inr (map string_of_nat [0..<length s])"
| "Object_keys (JArr xs) = Inr (map string_of_nat [0..<length xs])"
| "Object_keys (JObj kvs) = Inr (map fst kvs)"

definition hex_char :: "nat \<Rightarrow> char" where
  "hex_char d = ''0123456789abcdef'' ! (d mod 16)"

definition escape_char :: "char \<Rightarrow> string" where
  "escape_char c =
     (if c = CHR 0x22 then [CHR 0x5C, CHR 0x22]
      else if c = CHR 0x5C then [CHR 0x5C, CHR 0x5C]
      else if c = CHR 0x08 then [CHR 0x5C, CHR ''b'']
      else if c = CHR 0x09 then [CHR 0x5C, CHR ''t'']
      else if c = CHR 0x0A then [CHR 0x5C, CHR ''n'']
      else if c = CHR 0x0C then [CHR 0x5C, CHR ''f'']
      else if c = CHR 0x0D then [CHR 0x5C, CHR ''r'']
      else if (of_char c :: nat) < 32
        then [CHR 0x5C, CHR ''u'', CHR ''0'', CHR ''0'', hex_char (of_char c div 16), hex_char (of_char c)]
      else [c])"

definition QuoteJSONString :: "string \<Rightarrow> string" where
  "QuoteJSONString s = CHR 0x22 # concat (map escape_char s) @ [CHR 0x22]"

fun join :: "string \<Rightarrow> string list \<Rightarrow> string" where
  "join sep [] = []"
| "join sep [x] = x"
| "join sep (x # y # ys) = x @ sep @ join sep (y # ys)"

text \<open>
  \<open>SerializeJSONProperty\<close> returns \<open>Inr None\<close> for \<open>undefined\<close> (the property is left
  out of an object and written \<open>null\<close> in an array) and \<open>Inl\<close> when it throws.
\<close>

fun SerializeJSONProperty :: "jsval \<Rightarrow> js_error + string option"
  and SerializeJSONArray :: "jsval list \<Rightarrow> js_error + string list"
  and SerializeJSONObject :: "(string \<times> jsval) list \<Rightarrow> js_error + string list"
where
  "SerializeJSONProperty JUndefined = Inr None"
| "SerializeJSONProperty JNull = Inr (Some ''null'')"
| "SerializeJSONProperty (JBool b) = Inr (Some (if b then ''true'' else ''false''))"
| "SerializeJSONProperty (JNum n) = Inr (Some (string_of_int (sint n)))"
| "SerializeJSONProperty (JBigInt n) = Inl (TypeError ''Do not know how to serialize a BigInt'')"
| "SerializeJSONProperty (JStr s) = Inr (Some (QuoteJSONString s))"
| "SerializeJSONProperty (JArr xs) =
     (case SerializeJSONArray xs of
        Inl e \<Rightarrow> Inl e
      | Inr parts \<Rightarrow> Inr (Some (''['' @ join '','' parts @ '']'')))"
| "SerializeJSONProperty (JObj kvs) =
     (case SerializeJSONObject kvs of
        Inl e \<Rightarrow> Inl e
      | Inr parts \<Rightarrow> Inr (Some (''{'' @ join '','' parts @ ''}'')))"
| "SerializeJSONArray [] = Inr []"
| "SerializeJSONArray (x # xs) =
     (case SerializeJSONProperty x of
        Inl e \<Rightarrow> Inl e
      | Inr r \<Rightarrow>
          (case SerializeJSONArray xs of
             Inl e \<Rightarrow> Inl e
           | Inr rs \<Rightarrow> Inr ((case r of None \<Rightarrow> ''null'' | Some s \<Rightarrow> s) # rs)))"
| "SerializeJSONObject [] = Inr []"
| "SerializeJSONObject ((k, v) # kvs) =
     (case SerializeJSONProperty v of
        Inl e \<Rightarrow> Inl e
      | Inr r \<Rightarrow>
          (case SerializeJSONObject kvs of
             Inl e \<Rightarrow> Inl e
           | Inr rs \<Rightarrow>
               Inr ((case r of None \<Rightarrow> [] | Some s \<Rightarrow> [QuoteJSONString k @ '':'' @ s]) @ rs)))"

definition JSON_stringify :: "jsval \<Rightarrow> js_error + string option" where
  "JSON_stringify v = SerializeJSONProperty v"

text \<open>String concatenation with a value that may be \<open>undefined\<close>.\<close>

fun ToString_opt :: "string option \<Rightarrow> string" where
  "ToString_opt None = ''undefined''"
| "ToString_opt (Some s) = s"

section \<open>Effects: console reports and HTTP requests\<close>

text \<open>
  The arguments of a call of \<open>fetch\<close>: the URL (the field \<open>webhookUrl\<close>, which may
  be \<open>null\<close>), and the options \<open>method\<close>, \<open>headers\<close> and \<open>body\<close>.
\<close>

record request =
  url :: "string option"
  http_method :: string
  headers :: "(string \<times> string) list"
  body :: "string option"

datatype logval = LStr string | LErr js_error

datatype event = ConsoleError "logval list" | Fetch request

text \<open>
  What the environment answers to \<open>fetch\<close>: the promise rejects (network failure) or
  resolves with a response. \<open>text_result\<close> is the outcome of \<open>response.text()\<close>.
\<close>

record response =
  status :: nat
  text_result :: "js_error + string"

datatype fetch_outcome = Rejected js_error | Resolved response

text \<open>\<open>response.ok\<close> (Fetch standard): the status is in the range 200 to 299.\<close>

definition ok :: "response \<Rightarrow> bool" where
  "ok r = (200 \<le> status r \<and> status r \<le> 299)"

fun is_Fetch :: "event \<Rightarrow> bool" where
  "is_Fetch (Fetch r) = True"
| "is_Fetch (ConsoleError args) = False"

section \<open>The sender: class \<open>AlertNow\<close>\<close>

record AlertNow =
  driver :: "string option"
  webhookUrl :: "string option"

definition DEF_TEMPLATE :: string where
  "DEF_TEMPLATE =
     ''**$title**\<newline>\<newline>message:```\<newline>\<newline>$message```\<newline>$data\<newline>''"

text \<open>
  Lines 67 to 72 of \<open>_sendDiscord\<close>: the data block. \<open>data != null\<close> is false for
  \<open>null\<close> and for \<open>undefined\<close>. \<open>Inl\<close> is an exception thrown on the way.
\<close>

definition dataStr :: "jsval \<Rightarrow> js_error + string" where
  "dataStr data =
     (if data \<noteq> JNull \<and> data \<noteq> JUndefined then
        (case Object_keys data of
           Inl e \<Rightarrow> Inl e
         | Inr keys \<Rightarrow>
             if length keys > 0 then
               (case JSON_stringify data of
                  Inl e \<Rightarrow> Inl e
                | Inr str \<Rightarrow>
                    Inr (''data:```\<newline>\<newline>'' @ ToString_opt str @ ''```\<newline>''))
             else Inr [])
      else Inr [])"

text \<open>Line 74: three replacements in a row, each of the first occurrence.\<close>

definition content :: "string \<Rightarrow> string \<Rightarrow> string \<Rightarrow> string" where
  "content title message ds =
     replace (replace (replace DEF_TEMPLATE ''$title'' title) ''$message'' message) ''$data'' ds"

text \<open>A parameter default applies when the argument is \<open>undefined\<close>.\<close>

definition default_data :: "jsval \<Rightarrow> jsval" where
  "default_data data = (if data = JUndefined then JObj [] else data)"

text \<open>
  \<open>_sendDiscord\<close> is an async function. Its body runs inside the caller up to the first
  \<open>await\<close>, so the call of \<open>fetch\<close> happens before \<open>send\<close> returns
  (\<open>before_await\<close>); what follows the answer of \<open>fetch\<close> happens later
  (\<open>after_await\<close>). \<open>settled\<close> is how the returned promise ends: rejected with an
  error or fulfilled with the response. An exception in the body of an async function
  rejects its promise, also before the first \<open>await\<close>; it never reaches the caller as
  an exception. The block of lines 67 to 74 is outside the \<open>try\<close>, so an exception of
  \<open>JSON.stringify(data)\<close> rejects the promise with no call of \<open>fetch\<close> and no report
  from the \<open>catch\<close> block.
\<close>

record discord_run =
  before_await :: "event list"
  after_await :: "event list"
  settled :: "js_error + response"

definition failed_report :: "js_error \<Rightarrow> event" where
  "failed_report e = ConsoleError [LStr ''Failed to send notification to Discord:'', LErr e]"

definition sendDiscord :: "AlertNow \<Rightarrow> string \<Rightarrow> string \<Rightarrow> jsval \<Rightarrow> fetch_outcome \<Rightarrow> discord_run" where
  "sendDiscord this title message data0 env =
     (let data = default_data data0 in
      case dataStr data of
        Inl e \<Rightarrow> \<lparr>before_await = [], after_await = [], settled = Inl e\<rparr>
      | Inr ds \<Rightarrow>
          (let payload = JObj [(''content'', JStr (content title message ds))] in
           case JSON_stringify payload of
             Inl e \<Rightarrow> \<lparr>before_await = [failed_report e], after_await = [], settled = Inl e\<rparr>
           | Inr b \<Rightarrow>
               (let req = \<lparr>url = AlertNow.webhookUrl this, http_method = ''POST'',
                           headers = [(''Content-Type'', ''application/json'')], body = b\<rparr>
                in case env of
                     Rejected e \<Rightarrow>
                       \<lparr>before_await = [Fetch req], after_await = [failed_report e], settled = Inl e\<rparr>
                   | Resolved response \<Rightarrow>
                       if \<not> ok response then
                         (case text_result response of
                            Inl e \<Rightarrow>
                              \<lparr>before_await = [Fetch req], after_await = [failed_report e],
                               settled = Inl e\<rparr>
                          | Inr errorText \<Rightarrow>
                              (let e = Error (''Discord API error: '' @ string_of_nat (status response)
                                                @ '' - '' @ errorText)
                               in \<lparr>before_await = [Fetch req], after_await = [failed_report e],
                                   settled = Inl e\<rparr>))
                       else \<lparr>before_await = [Fetch req], after_await = [], settled = Inr response\<rparr>)))"

text \<open>
  \<open>send\<close> returns \<open>void\<close>. \<open>thrown\<close> is the exception the call ends with, if any;
  \<open>sync_events\<close> happen before it returns, \<open>async_events\<close> after. The body of
  \<open>send\<close> has no \<open>throw\<close>; it calls \<open>console.error\<close> and the async
  \<open>_sendDiscord\<close> only, so every branch ends with \<open>thrown = None\<close>.
\<close>

record send_run =
  thrown :: "js_error option"
  sync_events :: "event list"
  async_events :: "event list"

text \<open>Lines 51 to 54: the promise of \<open>_sendDiscord\<close> with its \<open>.catch\<close> handler.\<close>

definition catch_report :: "discord_run \<Rightarrow> send_run" where
  "catch_report run =
     \<lparr>thrown = None,
      sync_events = before_await run,
      async_events = after_await run @
        (case settled run of
           Inl error \<Rightarrow> [ConsoleError [LStr ''AlertNow Error:'', LErr error]]
         | Inr r \<Rightarrow> [])\<rparr>"

definition not_configured_report :: event where
  "not_configured_report = ConsoleError [LStr
     ''AlertNow instance not properly configured. Use setDriver(), setWebhook(), and build() before sending.'']"

definition send :: "AlertNow \<Rightarrow> jsval \<Rightarrow> jsval \<Rightarrow> jsval \<Rightarrow> fetch_outcome \<Rightarrow> send_run" where
  "send this title message data0 env =
     (let data = default_data data0 in
      if \<not> truthy_field (AlertNow.driver this) \<or> \<not> truthy_field (AlertNow.webhookUrl this) then
        \<lparr>thrown = None, sync_events = [not_configured_report], async_events = []\<rparr>
      else if \<not> truthy title \<or> js_typeof title \<noteq> ''string'' then
        \<lparr>thrown = None,
         sync_events = [ConsoleError [LStr ''AlertNow Error: Title is required and must be a string'']],
         async_events = []\<rparr>
      else if \<not> truthy message \<or> js_typeof message \<noteq> ''string'' then
        \<lparr>thrown = None,
         sync_events = [ConsoleError [LStr ''AlertNow Error: Message is required and must be a string'']],
         async_events = []\<rparr>
      else if AlertNow.driver this = Some ''discord'' then
        catch_report (sendDiscord this (string_value title) (string_value message) data env)
      else \<lparr>thrown = None, sync_events = [], async_events = []\<rparr>)"

section \<open>The builder: class \<open>AlertNowBuilder\<close>\<close>

record AlertNowBuilder =
  driver :: "string option"
  webhookUrl :: "string option"

definition new_AlertNowBuilder :: AlertNowBuilder where
  "new_AlertNowBuilder = \<lparr>AlertNowBuilder.driver = None, AlertNowBuilder.webhookUrl = None\<rparr>"

text \<open>
  A setter returns the exception it throws, if any, and the builder as the call leaves
  it (the methods mutate \<open>this\<close> and return it).
\<close>

definition setDriver :: "jsval \<Rightarrow> AlertNowBuilder \<Rightarrow> js_error option \<times> AlertNowBuilder" where
  "setDriver driver0 this =
     (if \<not> truthy driver0 \<or> js_typeof driver0 \<noteq> ''string'' then
        (Some (Error ''Driver must be a valid string''), this)
      else if toLowerCase (string_value driver0) \<noteq> ''discord'' then
        (Some (Error (''Currently only '' @ [CHR 0x22] @ ''discord'' @ [CHR 0x22] @ '' driver is supported'')),
         this)
      else (None, this\<lparr>AlertNowBuilder.driver := Some (toLowerCase (string_value driver0))\<rparr>))"

definition setWebhook :: "jsval \<Rightarrow> AlertNowBuilder \<Rightarrow> js_error option \<times> AlertNowBuilder" where
  "setWebhook webhookUrl0 this =
     (if \<not> truthy webhookUrl0 \<or> js_typeof webhookUrl0 \<noteq> ''string'' then
        (Some (Error ''A valid webhook URL is required''), this)
      else (None, this\<lparr>AlertNowBuilder.webhookUrl := Some (string_value webhookUrl0)\<rparr>))"

text \<open>
  \<open>build\<close> allocates a new \<open>AlertNow\<close> object. The store is the list of the sender
  objects allocated so far and a reference is a position in it, so that two objects
  with the same fields are still two objects.
\<close>

type_synonym store = "AlertNow list"

definition lookup :: "store \<Rightarrow> nat \<Rightarrow> AlertNow option" where
  "lookup h r = (if r < length h then Some (h ! r) else None)"

definition build :: "AlertNowBuilder \<Rightarrow> store \<Rightarrow> (js_error + nat) \<times> store" where
  "build this h =
     (if \<not> truthy_field (AlertNowBuilder.driver this) then
        (Inl (Error ''Driver must be set before building''), h)
      else if \<not> truthy_field (AlertNowBuilder.webhookUrl this) then
        (Inl (Error ''Webhook URL must be set before building''), h)
      else (Inr (length h),
            h @ [\<lparr>AlertNow.driver = AlertNowBuilder.driver this,
                   AlertNow.webhookUrl = AlertNowBuilder.webhookUrl this\<rparr>]))"

text \<open>
  Callers. \<open>fluent\<close> is a chain \<open>b.m1(..).m2(..)\<close>: it stops at the first exception.
  \<open>run\<close> is any sequence of setter calls on one builder, each exception caught by the
  caller; the builders it reaches from \<open>new_AlertNowBuilder\<close> are all the builders
  there are, the fields being private.
\<close>

datatype call = SetDriver jsval | SetWebhook jsval

fun invoke :: "call \<Rightarrow> AlertNowBuilder \<Rightarrow> js_error option \<times> AlertNowBuilder" where
  "invoke (SetDriver v) b = setDriver v b"
| "invoke (SetWebhook v) b = setWebhook v b"

fun fluent :: "call list \<Rightarrow> AlertNowBuilder \<Rightarrow> js_error option \<times> AlertNowBuilder" where
  "fluent [] b = (None, b)"
| "fluent (c # cs) b =
     (case invoke c b of
        (Some e, b') \<Rightarrow> (Some e, b')
      | (None, b') \<Rightarrow> fluent cs b')"

fun run :: "call list \<Rightarrow> AlertNowBuilder \<Rightarrow> AlertNowBuilder" where
  "run [] b = b"
| "run (c # cs) b = run cs (snd (invoke c b))"

section \<open>The template as the specification words it\<close>

text \<open>
  Section 4.2 of the specification: each of title, message and data block goes into its
  own slot of the fixed layout.
\<close>

definition spec_template :: "string \<Rightarrow> string \<Rightarrow> string \<Rightarrow> string" where
  "spec_template title message dataBlock =
     ''**'' @ title @ ''**\<newline>\<newline>message:```\<newline>\<newline>'' @ message @ ''```\<newline>''
       @ dataBlock @ ''\<newline>''"

definition spec_dataBlock :: "string \<Rightarrow> string" where
  "spec_dataBlock json = ''data:```\<newline>\<newline>'' @ json @ ''```\<newline>''"

text \<open>
  The supported platforms of section 4.1 and the case-insensitive comparison with them.
\<close>

definition spec_supported :: "string \<Rightarrow> bool" where
  "spec_supported s = (toLowerCase s \<in> set (map toLowerCase [''discord'']))"

section \<open>Notions used in the statements\<close>

text \<open>The fixed text of \<open>DEF_TEMPLATE\<close> around its three placeholders.\<close>

definition before_title :: string where
  "before_title = ''**''"

definition before_message :: string where
  "before_message = ''**\<newline>\<newline>message:```\<newline>\<newline>''"

definition before_data :: string where
  "before_data = ''```\<newline>''"

definition after_title :: string where
  "after_title = before_message @ ''$message'' @ before_data @ ''$data'' @ ''\<newline>''"

text \<open>The text the first replacement puts in the place of \<open>$title\<close>.\<close>

definition title_text :: "string \<Rightarrow> string" where
  "title_text title = GetSubstitution ''$title'' before_title after_title title"

text \<open>
  The history of a builder: a setter call is accepted when it throws nothing (whether it
  does never depends on the builder, lemma \<open>accepted_any\<close>); the platform, or the endpoint, has been set when
  an accepted call of its setter is in the history.
\<close>

fun is_SetDriver :: "call \<Rightarrow> bool" where
  "is_SetDriver (SetDriver v) = True"
| "is_SetDriver (SetWebhook v) = False"

definition accepted :: "call \<Rightarrow> bool" where
  "accepted c = (fst (invoke c new_AlertNowBuilder) = None)"

definition platform_was_set :: "call list \<Rightarrow> bool" where
  "platform_was_set cs = list_ex (\<lambda>c. is_SetDriver c \<and> accepted c) cs"

definition endpoint_was_set :: "call list \<Rightarrow> bool" where
  "endpoint_was_set cs = list_ex (\<lambda>c. \<not> is_SetDriver c \<and> accepted c) cs"


section \<open>Strings: first occurrences and replacement\<close>

lemma starts_with_iff: "starts_with p s = (\<exists>r. s = p @ r)"
  by (induction p s rule: starts_with.induct) auto


lemma starts_with_fresh: "c \<notin> set p \<Longrightarrow> starts_with p (s @ c # b) = starts_with p s"
  by (induction p s rule: starts_with.induct) auto

lemma starts_with_fresh_tl:
  "p \<noteq> [] \<Longrightarrow> c \<notin> set (tl p) \<Longrightarrow> s \<noteq> [] \<Longrightarrow> starts_with p (s @ c # b) = starts_with p s"
  by (cases p; cases s) (auto simp add: starts_with_fresh)



lemma indexOf_append_fresh:
  "p \<noteq> [] \<Longrightarrow> c \<notin> set (tl p) \<Longrightarrow>
   indexOf (a @ c # b) p =
     (case indexOf a p of
        Some i \<Rightarrow> Some i
      | None \<Rightarrow> (case indexOf (c # b) p of None \<Rightarrow> None | Some i \<Rightarrow> Some (length a + i)))"
proof (induction a)
  case Nil
  then show ?case by (simp split: option.splits)
next
  case (Cons x a)
  have "starts_with p ((x # a) @ c # b) = starts_with p (x # a)"
    using Cons.prems by (intro starts_with_fresh_tl) auto
  with Cons show ?case
    by (auto split: option.splits)
qed

lemma indexOf_skip:
  "CHR ''$'' \<notin> set a \<Longrightarrow>
   indexOf (a @ s) (CHR ''$'' # w) =
     (case indexOf s (CHR ''$'' # w) of None \<Rightarrow> None | Some i \<Rightarrow> Some (length a + i))"
  by (induction a) (auto split: option.splits)

lemma indexOf_plain: "CHR ''$'' \<notin> set a \<Longrightarrow> indexOf a (CHR ''$'' # w) = None"
  using indexOf_skip [of a "[]" w] by simp



subsection \<open>GetSubstitution\<close>

lemma GS_cons_plain:
  "c \<noteq> CHR ''$'' \<Longrightarrow> GetSubstitution m p f (c # t) = c # GetSubstitution m p f t"
  by (cases t) auto

lemma GS_append_plain:
  "CHR ''$'' \<notin> set a \<Longrightarrow> GetSubstitution m p f (a @ t) = a @ GetSubstitution m p f t"
  by (induction a) (auto simp add: GS_cons_plain)

lemma GS_plain: "CHR ''$'' \<notin> set t \<Longrightarrow> GetSubstitution m p f t = t"
  using GS_append_plain [of t m p f "[]"] by simp



lemma replace_Some:
  "indexOf s p = Some i \<Longrightarrow>
   replace s p r = take i s @ GetSubstitution p (take i s) (drop (i + length p) s) r @ drop (i + length p) s"
  by (simp add: replace_def Let_def)



text \<open>The placeholder right after a text without dollar sign is the first occurrence.\<close>

lemma replace_here:
  assumes "CHR ''$'' \<notin> set a"
  shows "replace (a @ CHR ''$'' # w @ b) (CHR ''$'' # w) v =
           a @ GetSubstitution (CHR ''$'' # w) a b v @ b"
proof -
  have "starts_with (CHR ''$'' # w) (CHR ''$'' # w @ b)"
    by (simp add: starts_with_iff)
  then have "indexOf (a @ CHR ''$'' # w @ b) (CHR ''$'' # w) = Some (length a)"
    using assms by (simp add: indexOf_skip)
  from replace_Some [OF this, of v] show ?thesis by simp
qed

lemma indexOf_region:
  assumes "CHR ''$'' \<notin> set pre" "CHR ''$'' \<notin> set mid" "mid = c # mid'" "c \<notin> set w"
  shows "indexOf (pre @ E @ mid @ rest) (CHR ''$'' # w) =
     (case indexOf E (CHR ''$'' # w) of
        Some i \<Rightarrow> Some (length pre + i)
      | None \<Rightarrow> (case indexOf rest (CHR ''$'' # w) of
                   None \<Rightarrow> None
                 | Some k \<Rightarrow> Some (length pre + length E + length mid + k)))"
proof -
  have 1: "indexOf (pre @ E) (CHR ''$'' # w) =
      (case indexOf E (CHR ''$'' # w) of None \<Rightarrow> None | Some i \<Rightarrow> Some (length pre + i))"
    using assms(1) by (rule indexOf_skip)
  have 2: "indexOf (mid @ rest) (CHR ''$'' # w) =
      (case indexOf rest (CHR ''$'' # w) of None \<Rightarrow> None | Some k \<Rightarrow> Some (length mid + k))"
    using assms(2) by (rule indexOf_skip)
  have 3: "indexOf ((pre @ E) @ c # (mid' @ rest)) (CHR ''$'' # w) =
     (case indexOf (pre @ E) (CHR ''$'' # w) of
        Some i \<Rightarrow> Some i
      | None \<Rightarrow> (case indexOf (c # (mid' @ rest)) (CHR ''$'' # w) of
                   None \<Rightarrow> None | Some i \<Rightarrow> Some (length (pre @ E) + i)))"
    using assms(4) by (intro indexOf_append_fresh) simp_all
  have 4: "pre @ E @ mid @ rest = (pre @ E) @ c # (mid' @ rest)" "c # (mid' @ rest) = mid @ rest"
    using assms(3) by simp_all
  show ?thesis
    unfolding 4(1) 3 unfolding 4(2) 1 2 by (simp split: option.splits)
qed


lemma replace_in_template:
  assumes "indexOf E (CHR ''$'' # w) = None"
    and "CHR ''$'' \<notin> set pre" "CHR ''$'' \<notin> set mid" "mid = c # mid'" "c \<notin> set w"
  shows "\<exists>X. replace (pre @ E @ mid @ (CHR ''$'' # w) @ rest) (CHR ''$'' # w) v =
           pre @ E @ mid @ X @ rest"
proof -
  have "starts_with (CHR ''$'' # w) ((CHR ''$'' # w) @ rest)" unfolding starts_with_iff by blast
  then have "indexOf ((CHR ''$'' # w) @ rest) (CHR ''$'' # w) = Some 0"
    by simp
  then have "indexOf (pre @ E @ mid @ (CHR ''$'' # w) @ rest) (CHR ''$'' # w) =
      Some (length pre + length E + length mid + 0)"
    unfolding indexOf_region [OF assms(2-5)] using assms(1) by simp
  from replace_Some [OF this, of v] show ?thesis by simp
qed




section \<open>The three replacements on the template\<close>

lemma before_message_plain: "CHR ''$'' \<notin> set before_message"
  by (simp add: before_message_def)

lemma before_data_plain: "CHR ''$'' \<notin> set before_data"
  by (simp add: before_data_def)

lemma DEF_TEMPLATE_pieces: "DEF_TEMPLATE = before_title @ ''$title'' @ after_title"
  by (simp add: DEF_TEMPLATE_def before_title_def after_title_def before_message_def before_data_def)

lemma spec_template_pieces:
  "spec_template title message ds =
     before_title @ title @ before_message @ message @ before_data @ ds @ ''\<newline>''"
  by (simp add: spec_template_def before_title_def before_message_def before_data_def)

lemma before_title_plain: "CHR ''$'' \<notin> set before_title"
  by (simp add: before_title_def)

lemma before_message_cons: "before_message = CHR ''*'' # tl before_message"
  by (simp add: before_message_def)

lemma first_replacement:
  "replace DEF_TEMPLATE ''$title'' title = before_title @ title_text title @ after_title"
  unfolding DEF_TEMPLATE_pieces title_text_def
  using replace_here [OF before_title_plain, of "''title''" after_title title] by simp




lemma third_in_template:
  assumes "indexOf E ''$data'' = None" "CHR ''$'' \<notin> set mid"
  shows "\<exists>X. replace (before_title @ E @ before_message @ mid @ ''$data'' @ rest) ''$data'' ds =
           before_title @ E @ before_message @ mid @ X @ rest"
proof -
  have 1: "CHR ''$'' \<notin> set (before_message @ mid)"
    using assms(2) before_message_plain by simp
  have 2: "before_message @ mid = CHR ''*'' # (tl before_message @ mid)"
    using before_message_cons by (metis append_Cons)
  have 3: "CHR ''*'' \<notin> set ''data''" by simp
  from replace_in_template [OF assms(1) before_title_plain 1 2 3, of rest ds]
  show ?thesis by simp
qed







lemma content_plain:
  assumes "CHR ''$'' \<notin> set title" "CHR ''$'' \<notin> set message" "CHR ''$'' \<notin> set ds"
  shows "content title message ds = spec_template title message ds"
proof -
  have tt: "title_text title = title"
    unfolding title_text_def using assms(1) by (rule GS_plain)
  have 1: "CHR ''$'' \<notin> set (before_title @ title @ before_message)"
    using assms(1) before_title_plain before_message_plain by simp
  have S2: "replace (before_title @ title @ after_title) ''$message'' message =
      before_title @ title @ before_message @ message @ before_data @ ''$data'' @ ''\<newline>''"
    using replace_here [OF 1, of "''message''" "before_data @ ''$data'' @ ''\<newline>''" message]
      GS_plain [OF assms(2)]
    unfolding after_title_def by simp
  have 2: "CHR ''$'' \<notin> set (before_title @ title @ before_message @ message @ before_data)"
    using assms(1,2) before_title_plain before_message_plain before_data_plain by simp
  show ?thesis
    unfolding content_def first_replacement tt S2 spec_template_pieces
    using replace_here [OF 2, of "''data''" "''\<newline>''" ds] GS_plain [OF assms(3)]
    by simp
qed

section \<open>Validation and dispatch\<close>

lemma invalid_text_iff:
  "(\<not> truthy v \<or> js_typeof v \<noteq> ''string'') = (\<not> (\<exists>s. s \<noteq> [] \<and> v = JStr s))"
  by (cases v) auto

lemma toLowerCase_discord: "toLowerCase ''discord'' = ''discord''"
  by (simp add: toLowerCase_def lower_char_def)

lemma spec_supported_iff: "spec_supported s = (toLowerCase s = ''discord'')"
  by (simp add: spec_supported_def toLowerCase_discord)

lemma JSON_stringify_payload:
  "JSON_stringify (JObj [(''content'', JStr c)]) =
     Inr (Some (''{'' @ QuoteJSONString ''content'' @ '':'' @ QuoteJSONString c @ ''}''))"
  by (simp add: JSON_stringify_def)

lemma default_data_idem: "default_data (default_data d) = default_data d"
  by (simp add: default_data_def)

lemma send_valid:
  assumes "AlertNow.driver this = Some ''discord''" "AlertNow.webhookUrl this = Some u" "u \<noteq> []"
    "t \<noteq> []" "m \<noteq> []"
  shows "send this (JStr t) (JStr m) d env = catch_report (sendDiscord this t m (default_data d) env)"
  using assms by (simp add: send_def)

section \<open>The builder\<close>

lemma run_driver:
  "AlertNowBuilder.driver (run cs b) =
     (if platform_was_set cs then Some ''discord'' else AlertNowBuilder.driver b)"
proof (induction cs arbitrary: b)
  case Nil
  then show ?case by (simp add: platform_was_set_def)
next
  case (Cons c cs)
  show ?case
  proof (cases c)
    case (SetDriver v)
    then show ?thesis
      using Cons [of "snd (setDriver v b)"]
      by (auto simp add: platform_was_set_def accepted_def setDriver_def)
  next
    case (SetWebhook v)
    then show ?thesis
      using Cons [of "snd (setWebhook v b)"]
      by (auto simp add: platform_was_set_def accepted_def setWebhook_def)
  qed
qed

lemma run_webhook:
  "truthy_field (AlertNowBuilder.webhookUrl (run cs b)) =
     (endpoint_was_set cs \<or> truthy_field (AlertNowBuilder.webhookUrl b))"
  "(AlertNowBuilder.webhookUrl (run cs b) = None) =
     (\<not> endpoint_was_set cs \<and> AlertNowBuilder.webhookUrl b = None)"
proof (induction cs arbitrary: b)
  case Nil
  { case 1 show ?case by (simp add: endpoint_was_set_def) }
  { case 2 show ?case by (simp add: endpoint_was_set_def) }
next
  case (Cons c cs)
  { case 1
    show ?case
    proof (cases c)
      case (SetDriver v)
      then show ?thesis
        using Cons(1) [of "snd (setDriver v b)"]
        by (auto simp add: endpoint_was_set_def accepted_def setDriver_def)
    next
      case (SetWebhook v)
      then show ?thesis
        using Cons(1) [of "snd (setWebhook v b)"]
        by (cases v) (auto simp add: endpoint_was_set_def accepted_def setWebhook_def)
    qed }
  { case 2
    show ?case
    proof (cases c)
      case (SetDriver v)
      then show ?thesis
        using Cons(2) [of "snd (setDriver v b)"]
        by (auto simp add: endpoint_was_set_def accepted_def setDriver_def)
    next
      case (SetWebhook v)
      then show ?thesis
        using Cons(2) [of "snd (setWebhook v b)"]
        by (cases v) (auto simp add: endpoint_was_set_def accepted_def setWebhook_def)
    qed }
qed

lemma build_fails_iff:
  "(\<exists>e. fst (build (run cs new_AlertNowBuilder) h) = Inl e) =
     (\<not> platform_was_set cs \<or> \<not> endpoint_was_set cs)"
  using run_driver [of cs new_AlertNowBuilder] run_webhook(1) [of cs new_AlertNowBuilder]
  by (auto simp add: build_def new_AlertNowBuilder_def)

lemma chain_ok:
  assumes "spec_supported p" "e \<noteq> []"
  shows "fluent [SetDriver (JStr p), SetWebhook (JStr e)] b =
           (None, b\<lparr>AlertNowBuilder.driver := Some ''discord'', AlertNowBuilder.webhookUrl := Some e\<rparr>)"
    and "build (b\<lparr>AlertNowBuilder.driver := Some ''discord'', AlertNowBuilder.webhookUrl := Some e\<rparr>) h =
           (Inr (length h), h @ [\<lparr>AlertNow.driver = Some ''discord'', AlertNow.webhookUrl = Some e\<rparr>])"
  using assms
  by (auto simp add: setDriver_def setWebhook_def spec_supported_iff build_def toLowerCase_def)

lemma build_twice:
  assumes "build b h = (Inr r1, h1)"
  shows "\<exists>r2 h2. build b h1 = (Inr r2, h2) \<and> r2 \<noteq> r1
      \<and> lookup h2 r1 = Some \<lparr>AlertNow.driver = AlertNowBuilder.driver b, AlertNow.webhookUrl = AlertNowBuilder.webhookUrl b\<rparr>
      \<and> lookup h2 r2 = lookup h2 r1"
  using assms
  by (auto simp add: build_def lookup_def nth_append split: if_splits)

lemma sendDiscord_default: "sendDiscord this t m (default_data d) env = sendDiscord this t m d env"
  by (simp add: sendDiscord_def default_data_idem)

lemma send_request:
  assumes "AlertNow.driver this = Some ''discord''" "AlertNow.webhookUrl this = Some u" "u \<noteq> []"
    and "t \<noteq> []" "m \<noteq> []"
    and "dataStr (default_data d) = Inr ds"
  shows "sync_events (send this (JStr t) (JStr m) d env) =
           [Fetch \<lparr>url = Some u, http_method = ''POST'',
                   headers = [(''Content-Type'', ''application/json'')],
                   body = Some (''{'' @ QuoteJSONString ''content'' @ '':''
                                @ QuoteJSONString (content t m ds) @ ''}'')\<rparr>]"
    and "\<forall>e \<in> set (async_events (send this (JStr t) (JStr m) d env)). \<not> is_Fetch e"
    and "thrown (send this (JStr t) (JStr m) d env) = None"
  using assms(2,6)
  by (auto simp add: send_valid [OF assms(1-5)] catch_report_def sendDiscord_def default_data_idem
      JSON_stringify_payload failed_report_def Let_def
      split: fetch_outcome.splits sum.splits)


lemma accepted_any: "accepted c = (fst (invoke c b) = None)"
  by (cases c) (auto simp add: accepted_def setDriver_def setWebhook_def)

lemma send_without_dollar:
  assumes "AlertNow.driver this = Some ''discord''" "AlertNow.webhookUrl this = Some u" "u \<noteq> []"
    and "t \<noteq> []" "m \<noteq> []"
    and "CHR ''$'' \<notin> set t" "CHR ''$'' \<notin> set m"
  shows "sync_events (send this (JStr t) (JStr m) JUndefined env) =
           [Fetch \<lparr>url = Some u, http_method = ''POST'',
                   headers = [(''Content-Type'', ''application/json'')],
                   body = Some (''{'' @ QuoteJSONString ''content'' @ '':''
                                @ QuoteJSONString (spec_template t m []) @ ''}'')\<rparr>]"
proof -
  have d: "dataStr (default_data JUndefined) = Inr []"
    by (simp add: dataStr_def default_data_def)
  have "content t m [] = spec_template t m []"
    using assms(6,7) by (intro content_plain) simp_all
  with send_request(1) [OF assms(1-5) d, of env] show ?thesis by simp
qed

lemma dataStr_object:
  "dataStr (JObj kvs) =
     (if kvs = [] then Inr []
      else (case JSON_stringify (JObj kvs) of
              Inl e \<Rightarrow> Inl e
            | Inr str \<Rightarrow> Inr (spec_dataBlock (ToString_opt str))))"
  by (simp add: dataStr_def spec_dataBlock_def split: sum.splits)

lemma dataStr_empty: "dataStr JNull = Inr []" "dataStr JUndefined = Inr []" "dataStr (JObj []) = Inr []"
  by (simp_all add: dataStr_def)

lemma content_data_without_dollar:
  assumes "kvs \<noteq> []" "JSON_stringify (JObj kvs) = Inr (Some json)"
    and "CHR ''$'' \<notin> set t" "CHR ''$'' \<notin> set m" "CHR ''$'' \<notin> set json"
  shows "\<exists>ds. dataStr (JObj kvs) = Inr ds
           \<and> content t m ds = spec_template t m (spec_dataBlock json)"
proof -
  have "dataStr (JObj kvs) = Inr (spec_dataBlock json)"
    using assms(1,2) by (simp add: dataStr_object)
  moreover have "CHR ''$'' \<notin> set (spec_dataBlock json)"
    using assms(5) by (simp add: spec_dataBlock_def)
  ultimately show ?thesis
    using content_plain [OF assms(3,4)] by blast
qed

section \<open>The content against the template filled slot by slot\<close>






lemma replicate_Cons_append:
  "0 < k \<Longrightarrow> replicate k x @ z = x # replicate (k - 1) x @ z"
  by (cases k) simp_all







lemma send_null_as_empty:
  assumes "AlertNow.driver this = Some ''discord''" "AlertNow.webhookUrl this = Some u" "u \<noteq> []"
    and "t \<noteq> []" "m \<noteq> []"
  shows "send this (JStr t) (JStr m) JNull env = send this (JStr t) (JStr m) (JObj []) env
       \<and> send this (JStr t) (JStr m) JNull env = send this (JStr t) (JStr m) JUndefined env
       \<and> thrown (send this (JStr t) (JStr m) JNull env) = None
       \<and> dataStr JNull = Inr []
       \<and> sync_events (send this (JStr t) (JStr m) JNull env) =
           [Fetch \<lparr>url = Some u, http_method = ''POST'',
                   headers = [(''Content-Type'', ''application/json'')],
                   body = Some (''{'' @ QuoteJSONString ''content'' @ '':''
                                @ QuoteJSONString (content t m []) @ ''}'')\<rparr>]
       \<and> (\<forall>r. env = Resolved r \<and> ok r \<longrightarrow> async_events (send this (JStr t) (JStr m) JNull env) = [])"
proof -
  have d: "dataStr (default_data JNull) = Inr []" "dataStr (default_data (JObj [])) = Inr []"
    "dataStr (default_data JUndefined) = Inr []" "dataStr JNull = Inr []"
    by (simp_all add: dataStr_def default_data_def)
  have 1: "send this (JStr t) (JStr m) JNull env = send this (JStr t) (JStr m) (JObj []) env"
    using d by (simp add: send_valid [OF assms] sendDiscord_def default_data_idem)
  have 2: "send this (JStr t) (JStr m) JNull env = send this (JStr t) (JStr m) JUndefined env"
    using d by (simp add: send_valid [OF assms] sendDiscord_def default_data_idem)
  have 3: "\<forall>r. env = Resolved r \<and> ok r \<longrightarrow> async_events (send this (JStr t) (JStr m) JNull env) = []"
    using d assms(2)
    by (simp add: send_valid [OF assms] sendDiscord_def default_data_idem catch_report_def
        JSON_stringify_payload Let_def)
  show ?thesis
    using 1 2 3 d(4) send_request(1,3) [OF assms d(1), of env] by simp
qed

section \<open>The claims\<close>

text \<open>
  Claim C1: a send with a non-empty title, a non-empty message and no data issues one POST
  to the endpoint, with the JSON content type, whose body is an object with the single
  field \<open>content\<close>, equal to the template filled with the title and the message.
  The request is as claimed for every title (lemma \<open>send_request\<close>), and the content
  is the filled template when title and message hold no dollar sign (lemma
  \<open>send_without_dollar\<close>). It is not for the title \<open>$$\<close>: \<open>replace\<close> reads the title as a
  replacement pattern, so the content holds one dollar sign where the template asks for
  the title.
\<close>

theorem send_title_dollar_dollar:
  "content ''$$'' ''Body'' [] = ''**$**\<newline>\<newline>message:```\<newline>\<newline>Body```\<newline>\<newline>''
   \<and> spec_template ''$$'' ''Body'' [] = ''**$$**\<newline>\<newline>message:```\<newline>\<newline>Body```\<newline>\<newline>''
   \<and> sync_events (send \<lparr>AlertNow.driver = Some ''discord'', AlertNow.webhookUrl = Some ''https://discord.test/hook''\<rparr>
          (JStr ''$$'') (JStr ''Body'') JUndefined (Resolved \<lparr>status = 204, text_result = Inr []\<rparr>))
       = [Fetch \<lparr>url = Some ''https://discord.test/hook'', http_method = ''POST'',
                  headers = [(''Content-Type'', ''application/json'')],
                  body = Some (''{'' @ QuoteJSONString ''content'' @ '':''
                     @ QuoteJSONString ''**$**\<newline>\<newline>message:```\<newline>\<newline>Body```\<newline>\<newline>'' @ ''}'')\<rparr>]"
proof -
  have c: "content ''$$'' ''Body'' [] = ''**$**\<newline>\<newline>message:```\<newline>\<newline>Body```\<newline>\<newline>''"
    by (simp add: content_def replace_def DEF_TEMPLATE_def)
  have d: "dataStr (default_data JUndefined) = Inr []"
    by (simp add: dataStr_def default_data_def)
  show ?thesis
    using send_request(1) [of "\<lparr>AlertNow.driver = Some ''discord'', AlertNow.webhookUrl = Some ''https://discord.test/hook''\<rparr>"
        "''https://discord.test/hook''" "''$$''" "''Body''" JUndefined "[]"
        "Resolved \<lparr>status = 204, text_result = Inr []\<rparr>"] d
    unfolding c by (simp add: spec_template_def)
qed

theorem send_title_dollar_dollar_witness:
  "content ''$$'' ''Body'' [] \<noteq> spec_template ''$$'' ''Body'' []"
  using send_title_dollar_dollar by simp

text \<open>
  Claim C2: for every sender, when the title is not a string, is \<open>null\<close> or is empty, or
  the message is not a string or is empty, \<open>send\<close> throws nothing, calls \<open>fetch\<close>
  neither before nor after it returns, and writes one error report to the console.
\<close>

theorem send_invalid_argument:
  assumes "(\<forall>s. title \<noteq> JStr s) \<or> title = JStr [] \<or> (\<forall>s. message \<noteq> JStr s) \<or> message = JStr []"
  shows "thrown (send this title message data env) = None
       \<and> (\<exists>args. sync_events (send this title message data env) = [ConsoleError args])
       \<and> async_events (send this title message data env) = []
       \<and> (\<forall>e \<in> set (sync_events (send this title message data env)
                      @ async_events (send this title message data env)). \<not> is_Fetch e)"
proof -
  have "(\<not> truthy title \<or> js_typeof title \<noteq> ''string'') \<or> (\<not> truthy message \<or> js_typeof message \<noteq> ''string'')"
    using assms unfolding invalid_text_iff by auto
  then show ?thesis
    by (auto simp add: send_def Let_def not_configured_report_def)
qed

theorem send_invalid_argument_witness:
  "((\<forall>s. JNull \<noteq> JStr s) \<or> JNull = JStr [] \<or> (\<forall>s. JStr ''msg'' \<noteq> JStr s) \<or> JStr ''msg'' = JStr [])
   \<and> thrown (send \<lparr>AlertNow.driver = Some ''discord'', AlertNow.webhookUrl = Some ''https://discord.test/hook''\<rparr>
             JNull (JStr ''msg'') JUndefined (Rejected (TypeError ''network''))) = None
   \<and> sync_events (send \<lparr>AlertNow.driver = Some ''discord'', AlertNow.webhookUrl = Some ''https://discord.test/hook''\<rparr>
             JNull (JStr ''msg'') JUndefined (Rejected (TypeError ''network'')))
       = [ConsoleError [LStr ''AlertNow Error: Title is required and must be a string'']]
   \<and> async_events (send \<lparr>AlertNow.driver = Some ''discord'', AlertNow.webhookUrl = Some ''https://discord.test/hook''\<rparr>
             JNull (JStr ''msg'') JUndefined (Rejected (TypeError ''network''))) = []"
  using send_invalid_argument [of JNull "JStr ''msg''"
      "\<lparr>AlertNow.driver = Some ''discord'', AlertNow.webhookUrl = Some ''https://discord.test/hook''\<rparr>"
      JUndefined "Rejected (TypeError ''network'')"]
  by (simp add: send_def default_data_def)

text \<open>
  Claim C3, amended: with valid arguments and a response whose status is outside 200 to
  299, \<open>send\<close> returns without throwing. When the request went out (the data block could
  be built), nothing but the request happens before \<open>send\<close> returns, and afterwards one
  error is reported on the console, by \<open>_sendDiscord\<close> and by the \<open>catch\<close> handler of
  \<open>send\<close>: the error that carries the status and the text of the response when
  \<open>response.text()\<close> gives the text, and the error of \<open>response.text()\<close> when it
  fails. When the data block could not be built there is no request, and the error of
  building it is reported by the \<open>catch\<close> handler.
\<close>

theorem send_http_failure:
  assumes "AlertNow.driver this = Some ''discord''" "AlertNow.webhookUrl this = Some u" "u \<noteq> []"
    and "t \<noteq> []" "m \<noteq> []"
    and "\<not> ok r"
  shows "thrown (send this (JStr t) (JStr m) data (Resolved r)) = None
       \<and> (\<forall>ds. dataStr (default_data data) = Inr ds \<longrightarrow>
            sync_events (send this (JStr t) (JStr m) data (Resolved r)) =
              [Fetch \<lparr>url = Some u, http_method = ''POST'',
                      headers = [(''Content-Type'', ''application/json'')],
                      body = Some (''{'' @ QuoteJSONString ''content'' @ '':''
                                   @ QuoteJSONString (content t m ds) @ ''}'')\<rparr>]
            \<and> async_events (send this (JStr t) (JStr m) data (Resolved r)) =
              [ConsoleError [LStr ''Failed to send notification to Discord:'',
                 LErr (case text_result r of
                         Inl e \<Rightarrow> e
                       | Inr errorText \<Rightarrow>
                           Error (''Discord API error: '' @ string_of_nat (status r) @ '' - '' @ errorText))],
               ConsoleError [LStr ''AlertNow Error:'',
                 LErr (case text_result r of
                         Inl e \<Rightarrow> e
                       | Inr errorText \<Rightarrow>
                           Error (''Discord API error: '' @ string_of_nat (status r) @ '' - '' @ errorText))]])
       \<and> (\<forall>e. dataStr (default_data data) = Inl e \<longrightarrow>
            sync_events (send this (JStr t) (JStr m) data (Resolved r)) = []
            \<and> async_events (send this (JStr t) (JStr m) data (Resolved r)) =
                 [ConsoleError [LStr ''AlertNow Error:'', LErr e]])"
  using assms(2,6)
  by (auto simp add: send_valid [OF assms(1-5)] catch_report_def sendDiscord_def default_data_idem
      JSON_stringify_payload failed_report_def Let_def split: sum.splits)

theorem send_http_failure_witness:
  "\<not> ok \<lparr>status = 500, text_result = Inr ''boom''\<rparr>
   \<and> dataStr (default_data JUndefined) = Inr []
   \<and> thrown (send \<lparr>AlertNow.driver = Some ''discord'', AlertNow.webhookUrl = Some ''https://discord.test/hook''\<rparr>
        (JStr ''Title'') (JStr ''Body'') JUndefined (Resolved \<lparr>status = 500, text_result = Inr ''boom''\<rparr>)) = None
   \<and> async_events (send \<lparr>AlertNow.driver = Some ''discord'', AlertNow.webhookUrl = Some ''https://discord.test/hook''\<rparr>
        (JStr ''Title'') (JStr ''Body'') JUndefined (Resolved \<lparr>status = 500, text_result = Inr ''boom''\<rparr>)) =
       [ConsoleError [LStr ''Failed to send notification to Discord:'',
          LErr (Error ''Discord API error: 500 - boom'')],
        ConsoleError [LStr ''AlertNow Error:'', LErr (Error ''Discord API error: 500 - boom'')]]"
proof -
  have h: "\<not> ok \<lparr>status = 500, text_result = Inr ''boom''\<rparr>"
    "dataStr (default_data JUndefined) = Inr []"
    by (simp_all add: ok_def dataStr_def default_data_def)
  have s: "AlertNow.driver \<lparr>AlertNow.driver = Some ''discord'', AlertNow.webhookUrl = Some ''https://discord.test/hook''\<rparr>
        = Some ''discord''"
    "AlertNow.webhookUrl \<lparr>AlertNow.driver = Some ''discord'', AlertNow.webhookUrl = Some ''https://discord.test/hook''\<rparr>
        = Some ''https://discord.test/hook''"
    "''https://discord.test/hook'' \<noteq> []" "''Title'' \<noteq> []" "''Body'' \<noteq> []"
    by simp_all
  have n: "string_of_nat 500 = ''500''"
    by (simp add: digit_char_def)
  from send_http_failure [OF s h(1), of JUndefined] h(2)
  have "thrown (send \<lparr>AlertNow.driver = Some ''discord'', AlertNow.webhookUrl = Some ''https://discord.test/hook''\<rparr>
        (JStr ''Title'') (JStr ''Body'') JUndefined (Resolved \<lparr>status = 500, text_result = Inr ''boom''\<rparr>)) = None"
    and "async_events (send \<lparr>AlertNow.driver = Some ''discord'', AlertNow.webhookUrl = Some ''https://discord.test/hook''\<rparr>
        (JStr ''Title'') (JStr ''Body'') JUndefined (Resolved \<lparr>status = 500, text_result = Inr ''boom''\<rparr>)) =
       [ConsoleError [LStr ''Failed to send notification to Discord:'',
          LErr (Error (''Discord API error: '' @ string_of_nat 500 @ '' - '' @ ''boom''))],
        ConsoleError [LStr ''AlertNow Error:'',
          LErr (Error (''Discord API error: '' @ string_of_nat 500 @ '' - '' @ ''boom''))]]"
    by simp_all
  then show ?thesis using h unfolding n by simp
qed

text \<open>
  As claim C3 is worded, the reported error would carry the status and the text of the
  response for every response with a failure status. For a response with status 404 whose
  text cannot be read, the two reports carry the error of reading it and nothing else.
\<close>

theorem send_http_failure_counterexample:
  "\<not> ok \<lparr>status = 404, text_result = Inl (TypeError ''body stream interrupted'')\<rparr>
   \<and> send \<lparr>AlertNow.driver = Some ''discord'', AlertNow.webhookUrl = Some ''https://discord.test/hook''\<rparr>
        (JStr ''Title'') (JStr ''Body'') JUndefined
        (Resolved \<lparr>status = 404, text_result = Inl (TypeError ''body stream interrupted'')\<rparr>)
     = \<lparr>thrown = None,
        sync_events =
          [Fetch \<lparr>url = Some ''https://discord.test/hook'', http_method = ''POST'',
                  headers = [(''Content-Type'', ''application/json'')],
                  body = Some (''{'' @ QuoteJSONString ''content'' @ '':''
                               @ QuoteJSONString (spec_template ''Title'' ''Body'' []) @ ''}'')\<rparr>],
        async_events =
          [ConsoleError [LStr ''Failed to send notification to Discord:'',
             LErr (TypeError ''body stream interrupted'')],
           ConsoleError [LStr ''AlertNow Error:'', LErr (TypeError ''body stream interrupted'')]]\<rparr>"
proof -
  have c: "content ''Title'' ''Body'' [] = spec_template ''Title'' ''Body'' []"
    by (rule content_plain) simp_all
  show ?thesis
    by (simp add: send_def sendDiscord_def catch_report_def default_data_def dataStr_def
        JSON_stringify_payload failed_report_def ok_def c)
qed

text \<open>
  Claim C4: for a supported platform identifier \<open>p\<close> and a non-empty endpoint \<open>e\<close>
  the chain \<open>setDriver(p).setWebhook(e).build()\<close> throws nothing and returns a new
  sender holding \<open>discord\<close> and \<open>e\<close>; on a builder with any history of setter calls
  \<open>build\<close> throws an \<open>Error\<close> exactly when the platform or the endpoint has not been
  set; and a second \<open>build\<close> on the same builder returns another object with the same
  two fields.
\<close>

theorem builder_finalize:
  "(spec_supported p \<and> e \<noteq> [] \<longrightarrow>
      (\<exists>b'. fluent [SetDriver (JStr p), SetWebhook (JStr e)] b = (None, b')
          \<and> build b' h = (Inr (length h),
                h @ [\<lparr>AlertNow.driver = Some ''discord'', AlertNow.webhookUrl = Some e\<rparr>])))
   \<and> ((\<exists>err. fst (build (run cs new_AlertNowBuilder) h) = Inl (Error err)) =
        (\<not> platform_was_set cs \<or> \<not> endpoint_was_set cs))
   \<and> (AlertNowBuilder.driver (run cs new_AlertNowBuilder) = None) = (\<not> platform_was_set cs)
   \<and> (AlertNowBuilder.webhookUrl (run cs new_AlertNowBuilder) = None) = (\<not> endpoint_was_set cs)
   \<and> (build b0 h0 = (Inr r1, h1) \<longrightarrow>
        (\<exists>r2 h2. build b0 h1 = (Inr r2, h2) \<and> r2 \<noteq> r1
           \<and> lookup h2 r1 = Some \<lparr>AlertNow.driver = AlertNowBuilder.driver b0,
                                    AlertNow.webhookUrl = AlertNowBuilder.webhookUrl b0\<rparr>
           \<and> lookup h2 r2 = lookup h2 r1))"
proof (intro conjI impI)
  assume "spec_supported p \<and> e \<noteq> []"
  then show "\<exists>b'. fluent [SetDriver (JStr p), SetWebhook (JStr e)] b = (None, b')
          \<and> build b' h = (Inr (length h),
                h @ [\<lparr>AlertNow.driver = Some ''discord'', AlertNow.webhookUrl = Some e\<rparr>])"
    using chain_ok(1) [of p e b] chain_ok(2) [of p e b h] by blast
next
  have "(\<exists>err. fst (build (run cs new_AlertNowBuilder) h) = Inl (Error err)) =
        (\<exists>e. fst (build (run cs new_AlertNowBuilder) h) = Inl e)"
    by (auto simp add: build_def)
  then show "(\<exists>err. fst (build (run cs new_AlertNowBuilder) h) = Inl (Error err)) =
        (\<not> platform_was_set cs \<or> \<not> endpoint_was_set cs)"
    using build_fails_iff [of cs h] by simp
next
  show "(AlertNowBuilder.driver (run cs new_AlertNowBuilder) = None) = (\<not> platform_was_set cs)"
    using run_driver [of cs new_AlertNowBuilder] by (simp add: new_AlertNowBuilder_def)
next
  show "(AlertNowBuilder.webhookUrl (run cs new_AlertNowBuilder) = None) = (\<not> endpoint_was_set cs)"
    using run_webhook(2) [of cs new_AlertNowBuilder] by (simp add: new_AlertNowBuilder_def)
next
  assume "build b0 h0 = (Inr r1, h1)"
  then show "\<exists>r2 h2. build b0 h1 = (Inr r2, h2) \<and> r2 \<noteq> r1
           \<and> lookup h2 r1 = Some \<lparr>AlertNow.driver = AlertNowBuilder.driver b0,
                                    AlertNow.webhookUrl = AlertNowBuilder.webhookUrl b0\<rparr>
           \<and> lookup h2 r2 = lookup h2 r1"
    by (rule build_twice)
qed

theorem builder_finalize_witness:
  "spec_supported ''Discord'' \<and> ''https://discord.test/hook'' \<noteq> []
   \<and> fluent [SetDriver (JStr ''Discord''), SetWebhook (JStr ''https://discord.test/hook'')] new_AlertNowBuilder
       = (None, \<lparr>AlertNowBuilder.driver = Some ''discord'',
                  AlertNowBuilder.webhookUrl = Some ''https://discord.test/hook''\<rparr>)
   \<and> build \<lparr>AlertNowBuilder.driver = Some ''discord'',
              AlertNowBuilder.webhookUrl = Some ''https://discord.test/hook''\<rparr> []
       = (Inr 0, [\<lparr>AlertNow.driver = Some ''discord'', AlertNow.webhookUrl = Some ''https://discord.test/hook''\<rparr>])
   \<and> \<not> endpoint_was_set [SetDriver (JStr ''discord''), SetWebhook (JStr '''')]
   \<and> fst (build (run [SetDriver (JStr ''discord''), SetWebhook (JStr '''')] new_AlertNowBuilder) [])
       = Inl (Error ''Webhook URL must be set before building'')
   \<and> build \<lparr>AlertNowBuilder.driver = Some ''discord'',
              AlertNowBuilder.webhookUrl = Some ''https://discord.test/hook''\<rparr>
        [\<lparr>AlertNow.driver = Some ''discord'', AlertNow.webhookUrl = Some ''https://discord.test/hook''\<rparr>]
       = (Inr 1, [\<lparr>AlertNow.driver = Some ''discord'', AlertNow.webhookUrl = Some ''https://discord.test/hook''\<rparr>,
                  \<lparr>AlertNow.driver = Some ''discord'', AlertNow.webhookUrl = Some ''https://discord.test/hook''\<rparr>])"
  using builder_finalize [where p = "''Discord''" and e = "''https://discord.test/hook''"
      and b = new_AlertNowBuilder and h = "[]"
      and cs = "[SetDriver (JStr ''discord''), SetWebhook (JStr '''')]"
      and ?b0.0 = "\<lparr>AlertNowBuilder.driver = Some ''discord'',
              AlertNowBuilder.webhookUrl = Some ''https://discord.test/hook''\<rparr>"
      and ?h0.0 = "[]" and ?r1.0 = 0
      and ?h1.0 = "[\<lparr>AlertNow.driver = Some ''discord'', AlertNow.webhookUrl = Some ''https://discord.test/hook''\<rparr>]"]
  by (simp add: spec_supported_def toLowerCase_def lower_char_def new_AlertNowBuilder_def
      setDriver_def setWebhook_def build_def endpoint_was_set_def accepted_def)

text \<open>
  Claim C5: for an argument that is not a string, is the empty string, or is no
  case-insensitive match of a supported platform, \<open>setDriver\<close> throws an \<open>Error\<close> and
  leaves the builder as it was.
\<close>

theorem setDriver_rejects:
  assumes "(\<forall>s. v \<noteq> JStr s) \<or> v = JStr [] \<or> (\<exists>s. v = JStr s \<and> \<not> spec_supported s)"
  shows "\<exists>msg. setDriver v b = (Some (Error msg), b)"
  using assms
  by (cases v) (auto simp add: setDriver_def spec_supported_iff)

theorem setDriver_rejects_witness:
  "((\<forall>s. JStr ''slack'' \<noteq> JStr s) \<or> JStr ''slack'' = JStr []
      \<or> (\<exists>s. JStr ''slack'' = JStr s \<and> \<not> spec_supported s))
   \<and> setDriver (JStr ''slack'') \<lparr>AlertNowBuilder.driver = None, AlertNowBuilder.webhookUrl = Some ''u''\<rparr>
       = (Some (Error (''Currently only '' @ [CHR 0x22] @ ''discord'' @ [CHR 0x22] @ '' driver is supported'')),
          \<lparr>AlertNowBuilder.driver = None, AlertNowBuilder.webhookUrl = Some ''u''\<rparr>)"
  using setDriver_rejects [of "JStr ''slack''"
      "\<lparr>AlertNowBuilder.driver = None, AlertNowBuilder.webhookUrl = Some ''u''\<rparr>"]
  by (simp add: spec_supported_def toLowerCase_def lower_char_def setDriver_def)

text \<open>
  Claim C6: \<open>setDriver\<close> stores the lower-case form of an accepted identifier, which is
  \<open>discord\<close>; two accepted identifiers such as \<open>DISCORD\<close> and \<open>discord\<close> leave the
  builder in the same state, and whatever calls follow, \<open>build\<close> then returns the same
  sender.
\<close>

theorem setDriver_case_insensitive:
  assumes "spec_supported s" "spec_supported s'"
  shows "setDriver (JStr s) b = (None, b\<lparr>AlertNowBuilder.driver := Some (toLowerCase s)\<rparr>)
       \<and> toLowerCase s = ''discord''
       \<and> setDriver (JStr s') b = setDriver (JStr s) b
       \<and> build (run cs (snd (setDriver (JStr s') b))) h = build (run cs (snd (setDriver (JStr s) b))) h"
proof -
  from assms have l: "toLowerCase s = ''discord''" "toLowerCase s' = ''discord''"
    by (simp_all add: spec_supported_iff)
  then have n: "s \<noteq> []" "s' \<noteq> []" by (auto simp add: toLowerCase_def)
  have 1: "setDriver (JStr s) b = (None, b\<lparr>AlertNowBuilder.driver := Some (toLowerCase s)\<rparr>)"
    using l n by (simp add: setDriver_def)
  have 2: "setDriver (JStr s') b = setDriver (JStr s) b"
    using l n by (simp add: setDriver_def)
  show ?thesis using 1 2 l by simp
qed

theorem setDriver_case_insensitive_witness:
  "spec_supported ''DISCORD'' \<and> spec_supported ''discord''
   \<and> setDriver (JStr ''DISCORD'') new_AlertNowBuilder = setDriver (JStr ''discord'') new_AlertNowBuilder
   \<and> setDriver (JStr ''DISCORD'') new_AlertNowBuilder =
       (None, \<lparr>AlertNowBuilder.driver = Some ''discord'', AlertNowBuilder.webhookUrl = None\<rparr>)"
proof -
  have h: "spec_supported ''DISCORD''" "spec_supported ''discord''"
    by (simp_all add: spec_supported_def toLowerCase_def lower_char_def)
  from setDriver_case_insensitive [OF h(2) h(1), of new_AlertNowBuilder "[]" "[]"] h
  show ?thesis by (simp add: new_AlertNowBuilder_def)
qed

text \<open>
  Claim C7: with a non-empty data mapping the data segment of the rendered body is the
  data block around the JSON text of the mapping, and with an empty mapping it is empty.
  The block \<open>dataStr\<close> builds is the claimed one (lemmas \<open>dataStr_object\<close> and
  \<open>dataStr_empty\<close>), and it is the data segment when title, message and JSON text hold
  no dollar sign (lemma \<open>content_data_without_dollar\<close>). But it is the replacement text
  of the third \<open>replace\<close>: for the mapping \<open>{price: "$$5"}\<close> the rendered body holds the
  JSON text of \<open>{price: "$5"}\<close>.
\<close>

theorem send_data_dollar_dollar:
  "dataStr (JObj [(''price'', JStr ''$$5'')]) =
      Inr (spec_dataBlock (''{'' @ QuoteJSONString ''price'' @ '':'' @ QuoteJSONString ''$$5'' @ ''}''))
   \<and> content ''Title'' ''Body'' (spec_dataBlock (''{'' @ QuoteJSONString ''price'' @ '':'' @ QuoteJSONString ''$$5'' @ ''}''))
       = spec_template ''Title'' ''Body''
           (spec_dataBlock (''{'' @ QuoteJSONString ''price'' @ '':'' @ QuoteJSONString ''$5'' @ ''}''))
   \<and> content ''Title'' ''Body'' (spec_dataBlock (''{'' @ QuoteJSONString ''price'' @ '':'' @ QuoteJSONString ''$$5'' @ ''}''))
       \<noteq> spec_template ''Title'' ''Body''
           (spec_dataBlock (''{'' @ QuoteJSONString ''price'' @ '':'' @ QuoteJSONString ''$$5'' @ ''}''))"
  by (simp add: dataStr_def JSON_stringify_def spec_dataBlock_def content_def replace_def
      DEF_TEMPLATE_def QuoteJSONString_def escape_char_def spec_template_def)

theorem send_data_dollar_dollar_witness:
  "\<exists>ds. dataStr (JObj [(''price'', JStr ''$$5'')]) = Inr ds
      \<and> content ''Title'' ''Body'' ds \<noteq> spec_template ''Title'' ''Body'' ds"
  using send_data_dollar_dollar by blast

text \<open>
  Claim C8: a sender that \<open>build\<close> returns, on a builder with any history of setter
  calls, holds the platform \<open>discord\<close> and a non-empty endpoint. For a non-empty title and
  message its \<open>send\<close> is then the call of \<open>_sendDiscord\<close> with the \<open>catch\<close> handler:
  the report "not properly configured" is never written, and when the data block can be
  built the request goes out to that endpoint.
\<close>

theorem built_sender_dispatches:
  assumes "build (run cs new_AlertNowBuilder) h = (Inr r, h')"
  shows "\<exists>this u. lookup h' r = Some this
      \<and> AlertNow.driver this = Some ''discord'' \<and> AlertNow.webhookUrl this = Some u \<and> u \<noteq> []
      \<and> (t \<noteq> [] \<and> m \<noteq> [] \<longrightarrow>
           send this (JStr t) (JStr m) d env = catch_report (sendDiscord this t m d env)
           \<and> not_configured_report \<notin> set (sync_events (send this (JStr t) (JStr m) d env)
                                            @ async_events (send this (JStr t) (JStr m) d env))
           \<and> (\<forall>ds. dataStr (default_data d) = Inr ds \<longrightarrow>
                 (\<exists>req. sync_events (send this (JStr t) (JStr m) d env) = [Fetch req]
                     \<and> url req = Some u \<and> http_method req = ''POST'')))"
proof -
  define b where "b = run cs new_AlertNowBuilder"
  from assms have ok: "truthy_field (AlertNowBuilder.driver b)" "truthy_field (AlertNowBuilder.webhookUrl b)"
    and r: "r = length h" "h' = h @ [\<lparr>AlertNow.driver = AlertNowBuilder.driver b,
                                        AlertNow.webhookUrl = AlertNowBuilder.webhookUrl b\<rparr>]"
    unfolding b_def [symmetric] by (auto simp add: build_def split: if_splits)
  from ok(1) have "platform_was_set cs"
    using run_driver [of cs new_AlertNowBuilder] unfolding b_def [symmetric]
    by (auto simp add: new_AlertNowBuilder_def split: if_splits)
  then have drv: "AlertNowBuilder.driver b = Some ''discord''"
    using run_driver [of cs new_AlertNowBuilder] unfolding b_def [symmetric] by simp
  from ok(2) obtain u where u: "AlertNowBuilder.webhookUrl b = Some u" "u \<noteq> []"
    by (cases "AlertNowBuilder.webhookUrl b") auto
  define this where "this = \<lparr>AlertNow.driver = Some ''discord'', AlertNow.webhookUrl = Some u\<rparr>"
  have lk: "lookup h' r = Some this"
    unfolding r this_def drv u by (simp add: lookup_def)
  have cfg: "AlertNow.driver this = Some ''discord''" "AlertNow.webhookUrl this = Some u"
    by (simp_all add: this_def)
  have disp: "t \<noteq> [] \<and> m \<noteq> [] \<longrightarrow>
           send this (JStr t) (JStr m) d env = catch_report (sendDiscord this t m d env)
           \<and> not_configured_report \<notin> set (sync_events (send this (JStr t) (JStr m) d env)
                                            @ async_events (send this (JStr t) (JStr m) d env))
           \<and> (\<forall>ds. dataStr (default_data d) = Inr ds \<longrightarrow>
                 (\<exists>req. sync_events (send this (JStr t) (JStr m) d env) = [Fetch req]
                     \<and> url req = Some u \<and> http_method req = ''POST''))"
  proof (intro impI conjI allI)
    assume v: "t \<noteq> [] \<and> m \<noteq> []"
    then have tm: "t \<noteq> []" "m \<noteq> []" by simp_all
    show eq: "send this (JStr t) (JStr m) d env = catch_report (sendDiscord this t m d env)"
      using send_valid [OF cfg u(2) tm, of d env] by (simp add: sendDiscord_default)
    show "not_configured_report \<notin> set (sync_events (send this (JStr t) (JStr m) d env)
                                            @ async_events (send this (JStr t) (JStr m) d env))"
      unfolding eq
      by (auto simp add: catch_report_def sendDiscord_def not_configured_report_def failed_report_def
          Let_def split: sum.splits fetch_outcome.splits if_splits)
    fix ds assume "dataStr (default_data d) = Inr ds"
    from send_request(1) [OF cfg u(2) tm this, of env]
    show "\<exists>req. sync_events (send this (JStr t) (JStr m) d env) = [Fetch req]
                     \<and> url req = Some u \<and> http_method req = ''POST''"
      by simp
  qed
  from lk cfg u(2) disp show ?thesis by blast
qed

theorem built_sender_dispatches_witness:
  "build (run [SetWebhook (JStr ''https://discord.test/hook''), SetDriver (JStr ''DisCord'')] new_AlertNowBuilder) []
     = (Inr 0, [\<lparr>AlertNow.driver = Some ''discord'', AlertNow.webhookUrl = Some ''https://discord.test/hook''\<rparr>])
   \<and> dataStr (default_data JUndefined) = Inr []
   \<and> (\<exists>req. sync_events (send \<lparr>AlertNow.driver = Some ''discord'', AlertNow.webhookUrl = Some ''https://discord.test/hook''\<rparr>
          (JStr ''Title'') (JStr ''Body'') JUndefined (Rejected (TypeError ''network''))) = [Fetch req]
        \<and> url req = Some ''https://discord.test/hook'')"
proof -
  have b: "build (run [SetWebhook (JStr ''https://discord.test/hook''), SetDriver (JStr ''DisCord'')] new_AlertNowBuilder) []
     = (Inr 0, [\<lparr>AlertNow.driver = Some ''discord'', AlertNow.webhookUrl = Some ''https://discord.test/hook''\<rparr>])"
    by (simp add: build_def setDriver_def setWebhook_def new_AlertNowBuilder_def toLowerCase_def lower_char_def)
  have d: "dataStr (default_data JUndefined) = Inr []"
    by (simp add: dataStr_def default_data_def)
  from built_sender_dispatches [OF b, of "''Title''" "''Body''" JUndefined "Rejected (TypeError ''network'')"] b d
  show ?thesis by (auto simp add: lookup_def)
qed




text \<open>
  Claim C10: with valid title and message, \<open>send\<close> with \<open>null\<close> as data throws nothing,
  writes no error report, and sends a body with an empty data segment, as for an empty
  mapping. The call does what it does with an empty mapping and with no data, and builds
  an empty data block (lemma \<open>send_null_as_empty\<close>). But the empty block goes to the first
  \<open>$data\<close> of the text: for the title \<open>$data\<close> it is the title that becomes empty, and the
  data segment of the body sent is the placeholder \<open>$data\<close> itself.
\<close>

theorem send_null_data:
  "dataStr JNull = Inr []
   \<and> content ''$data'' ''Body'' [] = ''****\<newline>\<newline>message:```\<newline>\<newline>Body```\<newline>$data\<newline>''
   \<and> spec_template ''$data'' ''Body'' [] = ''**$data**\<newline>\<newline>message:```\<newline>\<newline>Body```\<newline>\<newline>''
   \<and> send \<lparr>AlertNow.driver = Some ''discord'', AlertNow.webhookUrl = Some ''https://discord.test/hook''\<rparr>
        (JStr ''$data'') (JStr ''Body'') JNull (Resolved \<lparr>status = 204, text_result = Inr []\<rparr>)
     = \<lparr>thrown = None,
        sync_events =
          [Fetch \<lparr>url = Some ''https://discord.test/hook'', http_method = ''POST'',
                  headers = [(''Content-Type'', ''application/json'')],
                  body = Some (''{'' @ QuoteJSONString ''content'' @ '':''
                     @ QuoteJSONString ''****\<newline>\<newline>message:```\<newline>\<newline>Body```\<newline>$data\<newline>'' @ ''}'')\<rparr>],
        async_events = []\<rparr>
   \<and> send \<lparr>AlertNow.driver = Some ''discord'', AlertNow.webhookUrl = Some ''https://discord.test/hook''\<rparr>
        (JStr ''$data'') (JStr ''Body'') (JObj []) (Resolved \<lparr>status = 204, text_result = Inr []\<rparr>)
     = send \<lparr>AlertNow.driver = Some ''discord'', AlertNow.webhookUrl = Some ''https://discord.test/hook''\<rparr>
        (JStr ''$data'') (JStr ''Body'') JNull (Resolved \<lparr>status = 204, text_result = Inr []\<rparr>)"
proof -
  have c: "content ''$data'' ''Body'' [] = ''****\<newline>\<newline>message:```\<newline>\<newline>Body```\<newline>$data\<newline>''"
    by (simp add: content_def replace_def DEF_TEMPLATE_def)
  show ?thesis
    by (simp add: send_def sendDiscord_def catch_report_def default_data_def dataStr_def
        JSON_stringify_payload failed_report_def ok_def c spec_template_def)
qed

theorem send_null_data_witness:
  "content ''$data'' ''Body'' [] \<noteq> spec_template ''$data'' ''Body'' []"
  using send_null_data by simp

end
